theory Spec2Isabelle
  imports Main "HOL-Library.Word"
begin

section \<open>The native greeting provider of SimpleMediaApp\<close>

text \<open>
  The repository has one native source file, \<^verbatim>\<open>app/src/main/cpp/native-lib.cpp\<close>:
  \<^verbatim>\<open>
  extern "C" JNIEXPORT jstring JNICALL
  Java_com_example_simplemediaapp_MainActivity_stringFromJNI(
          JNIEnv* env,
          jobject /* this */) {
      std::string hello = "Hello from C++";
      return env->NewStringUTF(hello.c_str());
  }
  \<close>
  The function builds a \<^verbatim>\<open>std::string\<close> from a literal and hands its C string to
  the one JNI function it uses, \<^verbatim>\<open>NewStringUTF\<close>, whose result it returns.

  A \<^verbatim>\<open>std::string\<close> is a list of bytes here.
\<close>

subsection \<open>Handles and the environment\<close>

text \<open>
  A \<^verbatim>\<open>jobject\<close> is an opaque reference into the managed heap, or the null reference.
  In \<^verbatim>\<open>jni.h\<close> a \<^verbatim>\<open>jstring\<close> is a \<^verbatim>\<open>jobject\<close> as well, and a \<^verbatim>\<open>jchar\<close> is an
  unsigned 16-bit value.
\<close>

datatype jobject = NULL | Ref nat

type_synonym jstring = jobject

type_synonym jchar = "16 word"

text \<open>
  \<^verbatim>\<open>JNIEnv\<close> is a table of functions over the state of the virtual machine. The
  entry point calls one of them. The state \<open>'vm\<close> is threaded explicitly: a JNI
  function takes the state and returns its result with the new state. The record is
  extensible, so the table's other entries stay abstract (they are the \<open>more\<close> part
  of \<open>('vm, 'z) JNIEnv_scheme\<close>).
\<close>

record 'vm JNIEnv =
  NewStringUTF :: "char list \<Rightarrow> 'vm \<Rightarrow> jstring \<times> 'vm"

subsection \<open>The entry point\<close>

text \<open>
  \<^verbatim>\<open>std::string::c_str()\<close> gives the characters of the string followed by the
  terminating NUL.
\<close>

definition c_str :: "string \<Rightarrow> char list" where
  "c_str s = s @ [CHR 0x00]"

text \<open>
  The second parameter (the calling object, unnamed in the source) is \<open>thiz\<close>. The
  machine state \<open>vm\<close> is the state behind \<open>env\<close> at the call; the function returns
  its result together with the state it leaves. This definition is the function on
  the runs where line 12 has built the string; the construction that can throw is
  in \<open>stringFromJNI_native\<close> below.
\<close>

definition Java_com_example_simplemediaapp_MainActivity_stringFromJNI ::
    "('vm, 'z) JNIEnv_scheme \<Rightarrow> jobject \<Rightarrow> 'vm \<Rightarrow> jstring \<times> 'vm" where
  "Java_com_example_simplemediaapp_MainActivity_stringFromJNI env thiz vm =
     (let hello = ''Hello from C++''
      in NewStringUTF env (c_str hello) vm)"

text \<open>The entry point, under a short name for the statements that follow.\<close>

abbreviation stringFromJNI ::
    "('vm, 'z) JNIEnv_scheme \<Rightarrow> jobject \<Rightarrow> 'vm \<Rightarrow> jstring \<times> 'vm" where
  "stringFromJNI \<equiv> Java_com_example_simplemediaapp_MainActivity_stringFromJNI"

subsection \<open>The construction of the string on line 12\<close>

text \<open>
  The C++ standard library is not part of the repository. The constructor of
  \<^verbatim>\<open>std::string\<close> from a C string keeps the characters inside the object when they
  fit its inline buffer, and otherwise allocates them, with their terminating NUL,
  from the native heap; when that allocation fails it throws \<^verbatim>\<open>std::bad_alloc\<close>. The
  capacity of the inline buffer depends on the library and the target (10
  characters in libc++ on 32-bit targets, 22 on 64-bit ones), so it is a parameter,
  together with the number of bytes the native heap can still give.
  \<open>None\<close> is the thrown \<^verbatim>\<open>std::bad_alloc\<close>.
\<close>

record target =
  inline_capacity :: nat
  native_room :: nat

definition std_string :: "target \<Rightarrow> string \<Rightarrow> string option" where
  "std_string tgt s =
     (if length s \<le> inline_capacity tgt then Some s
      else if length s + 1 \<le> native_room tgt then Some s
      else None)"

text \<open>
  The entry point with line 12 as it can fail. The function has no handler, so an
  exception thrown on line 12 leaves it: line 13 does not run, and the environment
  is not called. Otherwise the function returns what line 13 returns; the string
  is destroyed on return, which gives its memory back.
\<close>

datatype 'a outcome = Returned 'a | Threw_bad_alloc

definition stringFromJNI_native ::
    "target \<Rightarrow> ('vm, 'z) JNIEnv_scheme \<Rightarrow> jobject \<Rightarrow> 'vm \<Rightarrow> (jstring \<times> 'vm) outcome" where
  "stringFromJNI_native tgt env thiz vm =
     (case std_string tgt ''Hello from C++'' of
        None \<Rightarrow> Threw_bad_alloc
      | Some hello \<Rightarrow> Returned (NewStringUTF env (c_str hello) vm))"

text \<open>
  An invocation has failed when it threw, or returned the null reference.
\<close>

definition failed :: "(jstring \<times> 'vm) outcome \<Rightarrow> bool" where
  "failed out = (case out of Threw_bad_alloc \<Rightarrow> True | Returned (r, vm) \<Rightarrow> r = NULL)"

subsection \<open>Observing the calls into the environment\<close>



subsection \<open>The bridging layer\<close>

text \<open>
  Modelled from the spec: \<^verbatim>\<open>jni.h\<close> and the virtual machine behind \<^verbatim>\<open>JNIEnv\<close> are
  not part of the repository. The spec says of this layer that it converts the
  text value into the caller's native string representation, that the value is
  allocated fresh on every call and owned by the calling runtime from then on, and
  that the conversion can fail only when the layer cannot allocate the outgoing
  string, which the caller sees as a null result. The definitions of this
  subsection model that: the managed heap is a list of objects, a reference is an
  index into it, and the heap holds at most \<open>capacity\<close> objects.
\<close>

datatype object = JString "jchar list" | JInstance string

record jvm =
  heap :: "object list"
  capacity :: nat

text \<open>
  Modelled from the spec: the conversion reads a C string, that is the bytes
  before the first NUL.
\<close>

definition c_string :: "char list \<Rightarrow> char list" where
  "c_string bytes = takeWhile (\<lambda>b. b \<noteq> CHR 0x00) bytes"

text \<open>
  Modelled from the spec: the bytes are in JNI's modified UTF-8. A byte in
  \<open>0x01..0x7F\<close> is one character; two bytes \<open>110xxxxx 10yyyyyy\<close> and three bytes
  \<open>1110xxxx 10yyyyyy 10zzzzzz\<close> carry 11 and 16 bits; the character 0 is written
  in two bytes, and there is no four-byte form (a supplementary character is two
  surrogates of three bytes each). \<open>None\<close> is a byte sequence that is not of this
  form.
\<close>

definition is_cont :: "char \<Rightarrow> bool" where
  "is_cont b = (0x80 \<le> (of_char b :: nat) \<and> (of_char b :: nat) < 0xC0)"

fun mutf8_decode :: "char list \<Rightarrow> jchar list option" where
  "mutf8_decode [] = Some []"
| "mutf8_decode (b # bs) =
     (let x = (of_char b :: nat) in
      if x = 0 then None
      else if x < 0x80 then map_option ((#) (of_nat x)) (mutf8_decode bs)
      else if 0xC0 \<le> x \<and> x < 0xE0 then
        (case bs of
           y # bs' \<Rightarrow>
             if is_cont y
             then map_option ((#) (of_nat (x mod 0x20 * 0x40 + of_char y mod 0x40)))
                    (mutf8_decode bs')
             else None
         | _ \<Rightarrow> None)
      else if 0xE0 \<le> x \<and> x < 0xF0 then
        (case bs of
           y # z # bs' \<Rightarrow>
             if is_cont y \<and> is_cont z
             then map_option
                    ((#) (of_nat (x mod 0x10 * 0x1000 + of_char y mod 0x40 * 0x40
                                    + of_char z mod 0x40)))
                    (mutf8_decode bs')
             else None
         | _ \<Rightarrow> None)
      else None)"

text \<open>
  Modelled from the spec: \<^verbatim>\<open>NewStringUTF\<close> decodes its argument and allocates the
  string at a fresh reference. When the heap is full it allocates nothing and
  returns the null reference; so it does for bytes that are no modified UTF-8.
\<close>

definition jni_NewStringUTF :: "char list \<Rightarrow> jvm \<Rightarrow> jstring \<times> jvm" where
  "jni_NewStringUTF bytes vm =
     (case mutf8_decode (c_string bytes) of
        None \<Rightarrow> (NULL, vm)
      | Some cs \<Rightarrow>
          if length (heap vm) < capacity vm
          then (Ref (length (heap vm)), vm\<lparr>heap := heap vm @ [JString cs]\<rparr>)
          else (NULL, vm))"

definition jni :: "jvm JNIEnv" where
  "jni = \<lparr>NewStringUTF = jni_NewStringUTF\<rparr>"

text \<open>
  Modelled from the spec: what the managed caller reads from a returned reference,
  the characters of the string it refers to, if it refers to one.
\<close>

definition string_at :: "jvm \<Rightarrow> jstring \<Rightarrow> jchar list option" where
  "string_at vm r =
     (case r of
        NULL \<Rightarrow> None
      | Ref n \<Rightarrow>
          if n < length (heap vm)
          then (case heap vm ! n of JString cs \<Rightarrow> Some cs | JInstance _ \<Rightarrow> None)
          else None)"

definition returned_text :: "jstring \<times> jvm \<Rightarrow> jchar list option" where
  "returned_text res = (case res of (r, vm) \<Rightarrow> string_at vm r)"

text \<open>
  Modelled from the spec: the bytes of a managed string, in modified UTF-8 (what
  \<^verbatim>\<open>GetStringUTFChars\<close> gives back) and in standard UTF-8, which encodes the code
  points: a surrogate pair is one code point there, in four bytes.
\<close>

definition mutf8_encode_unit :: "jchar \<Rightarrow> char list" where
  "mutf8_encode_unit c =
     (let n = unat c in
      if 0 < n \<and> n < 0x80 then [char_of n]
      else if n < 0x800 then [char_of (0xC0 + n div 0x40), char_of (0x80 + n mod 0x40)]
      else [char_of (0xE0 + n div 0x1000), char_of (0x80 + n div 0x40 mod 0x40),
            char_of (0x80 + n mod 0x40)])"

definition mutf8_encode :: "jchar list \<Rightarrow> char list" where
  "mutf8_encode cs = concat (map mutf8_encode_unit cs)"

definition is_high_surrogate :: "jchar \<Rightarrow> bool" where
  "is_high_surrogate c = (0xD800 \<le> unat c \<and> unat c < 0xDC00)"

definition is_low_surrogate :: "jchar \<Rightarrow> bool" where
  "is_low_surrogate c = (0xDC00 \<le> unat c \<and> unat c < 0xE000)"

fun code_points :: "jchar list \<Rightarrow> nat list" where
  "code_points [] = []"
| "code_points [c] = [unat c]"
| "code_points (h # l # cs) =
     (if is_high_surrogate h \<and> is_low_surrogate l
      then (0x10000 + (unat h - 0xD800) * 0x400 + (unat l - 0xDC00)) # code_points cs
      else unat h # code_points (l # cs))"

definition utf8_encode_point :: "nat \<Rightarrow> char list" where
  "utf8_encode_point n =
     (if n < 0x80 then [char_of n]
      else if n < 0x800 then [char_of (0xC0 + n div 0x40), char_of (0x80 + n mod 0x40)]
      else if n < 0x10000 then
        [char_of (0xE0 + n div 0x1000), char_of (0x80 + n div 0x40 mod 0x40),
         char_of (0x80 + n mod 0x40)]
      else
        [char_of (0xF0 + n div 0x40000), char_of (0x80 + n div 0x1000 mod 0x40),
         char_of (0x80 + n div 0x40 mod 0x40), char_of (0x80 + n mod 0x40)])"

definition utf8_encode :: "jchar list \<Rightarrow> char list" where
  "utf8_encode cs = concat (map utf8_encode_point (code_points cs))"

text \<open>A byte of the ASCII range other than NUL.\<close>

definition ascii :: "char \<Rightarrow> bool" where
  "ascii b = (0 < (of_char b :: nat) \<and> (of_char b :: nat) < 0x80)"

subsection \<open>Example machine states\<close>

text \<open>
  The machine states of the examples: the heap holds the calling activity at
  reference 0, followed by \<open>k\<close> greeting strings, and can hold \<open>n\<close> objects in all.
\<close>

definition activity_vm :: "nat \<Rightarrow> nat \<Rightarrow> jvm" where
  "activity_vm k n =
     \<lparr>heap = JInstance ''MainActivity'' # replicate k (JString (map of_char ''Hello from C++'')),
      capacity = n\<rparr>"

section \<open>Facts about the bridging layer\<close>

subsection \<open>Decoding undoes encoding\<close>

text \<open>
  The decoder and the encoder of modified UTF-8 agree on every managed string:
  encoding it and decoding the bytes gives the string back. The proof goes through
  the three forms of the encoding; the arithmetic of the lead and continuation
  bytes comes first.
\<close>

lemma div64_less: "n < 0x800 \<Longrightarrow> n div 0x40 < (0x20::nat)"
  by (simp add: div_less_iff_less_mult)

lemma div4096_less: "n < 0x10000 \<Longrightarrow> n div 0x1000 < (0x10::nat)"
  by (simp add: div_less_iff_less_mult)

lemma lead2_mod: "k < 0x20 \<Longrightarrow> (0xC0 + k) mod 0x20 = (k::nat)"
proof -
  assume small: "k < 0x20"
  have "(0xC0 + k) mod 0x20 = (0x20 * 6 + k) mod 0x20"
    by simp
  also have "\<dots> = k mod 0x20"
    by (rule mod_mult_self4)
  finally show ?thesis
    using small by simp
qed

lemma lead3_mod: "k < 0x10 \<Longrightarrow> (0xE0 + k) mod 0x10 = (k::nat)"
proof -
  assume small: "k < 0x10"
  have "(0xE0 + k) mod 0x10 = (0x10 * 14 + k) mod 0x10"
    by simp
  also have "\<dots> = k mod 0x10"
    by (rule mod_mult_self4)
  finally show ?thesis
    using small by simp
qed

lemma cont_mod: "(0x80 + k mod 0x40) mod 0x40 = k mod (0x40::nat)"
proof -
  have "(0x80 + k mod 0x40) mod 0x40 = (0x40 * 2 + k mod 0x40) mod 0x40"
    by simp
  also have "\<dots> = k mod 0x40 mod 0x40"
    by (rule mod_mult_self4)
  finally show ?thesis
    by simp
qed

lemma three_parts:
  "n div 0x1000 * 0x1000 + n div 0x40 mod 0x40 * 0x40 + n mod 0x40 = (n::nat)"
proof -
  define q where "q = n div 0x40"
  have top: "n div 0x1000 = q div 0x40"
    by (simp add: q_def div_mult2_eq [symmetric])
  have q: "q = 0x40 * (q div 0x40) + q mod 0x40"
    by simp
  have n: "n = 0x40 * q + n mod 0x40"
    by (simp add: q_def)
  have "q div 0x40 * 0x1000 + q mod 0x40 * 0x40 + n mod 0x40 = n"
    using q n by linarith
  then show ?thesis
    by (simp only: top q_def)
qed

lemma lead2_byte: "n < 0x800 \<Longrightarrow> (0xC0 + n div 0x40) mod 256 = 0xC0 + n div (0x40::nat)"
  by simp

lemma lead3_byte:
  "n < 0x10000 \<Longrightarrow> (0xE0 + n div 0x1000) mod 256 = 0xE0 + n div (0x1000::nat)"
  by simp

lemma cont_byte: "(0x80 + n mod 0x40) mod 256 = 0x80 + n mod (0x40::nat)"
  by simp

lemma lead2_payload: "n < 0x800 \<Longrightarrow> (0xC0 + n div 0x40) mod 0x20 = n div (0x40::nat)"
  by (simp only: lead2_mod div64_less)

lemma lead3_payload: "n < 0x10000 \<Longrightarrow> (0xE0 + n div 0x1000) mod 0x10 = n div (0x1000::nat)"
  by (simp only: lead3_mod div4096_less)

lemma jchar_bound: "unat (c :: jchar) < 0x10000"
  using unsigned_less [of c, where 'a = nat] by simp

lemma encode_one_byte:
  "0 < unat c \<Longrightarrow> unat c < 0x80 \<Longrightarrow> mutf8_encode_unit c = [char_of (unat c)]"
  by (simp add: mutf8_encode_unit_def Let_def)

lemma encode_two_bytes:
  assumes "\<not> (0 < unat c \<and> unat c < 0x80)" and "unat c < 0x800"
  shows "mutf8_encode_unit c
           = [char_of (0xC0 + unat c div 0x40), char_of (0x80 + unat c mod 0x40)]"
  by (simp only: mutf8_encode_unit_def Let_def assms if_False if_True)

lemma encode_three_bytes:
  assumes "\<not> (0 < unat c \<and> unat c < 0x80)" and "\<not> unat c < 0x800"
  shows "mutf8_encode_unit c
           = [char_of (0xE0 + unat c div 0x1000), char_of (0x80 + unat c div 0x40 mod 0x40),
              char_of (0x80 + unat c mod 0x40)]"
  by (simp only: mutf8_encode_unit_def Let_def assms if_False if_True)

lemma decode_one_byte:
  assumes "0 < n" and "n < 0x80"
  shows "mutf8_decode (char_of n # bs) = map_option ((#) (of_nat n)) (mutf8_decode bs)"
  using assms by (simp add: Let_def)

lemma decode_two_bytes:
  assumes "n < 0x800"
  shows "mutf8_decode (char_of (0xC0 + n div 0x40) # char_of (0x80 + n mod 0x40) # bs)
           = map_option ((#) (of_nat n)) (mutf8_decode bs)"
  using assms
  by (simp add: Let_def is_cont_def lead2_byte cont_byte lead2_payload cont_mod div64_less)

lemma decode_three_bytes:
  assumes "0x800 \<le> n" and "n < 0x10000"
  shows "mutf8_decode (char_of (0xE0 + n div 0x1000) # char_of (0x80 + n div 0x40 mod 0x40)
                        # char_of (0x80 + n mod 0x40) # bs)
           = map_option ((#) (of_nat n)) (mutf8_decode bs)"
  using assms
  by (simp add: Let_def is_cont_def lead3_byte cont_byte lead3_payload cont_mod three_parts
        div4096_less)

lemma decode_encode_unit:
  "mutf8_decode (mutf8_encode_unit c @ bs) = map_option ((#) c) (mutf8_decode bs)"
proof (cases "0 < unat c \<and> unat c < 0x80")
  case True
  then have "mutf8_encode_unit c = [char_of (unat c)]"
    by (simp only: encode_one_byte)
  with True decode_one_byte [of "unat c" bs] show ?thesis
    by simp
next
  case not_ascii: False
  show ?thesis
  proof (cases "unat c < 0x800")
    case True
    from encode_two_bytes [OF not_ascii True] decode_two_bytes [OF True, of bs] show ?thesis
      by simp
  next
    case False
    then have "0x800 \<le> unat c"
      by simp
    from encode_three_bytes [OF not_ascii False] decode_three_bytes [OF this jchar_bound, of bs]
    show ?thesis
      by simp
  qed
qed

lemma decode_encode: "mutf8_decode (mutf8_encode cs) = Some cs"
  by (induction cs) (simp_all add: mutf8_encode_def decode_encode_unit)

subsection \<open>ASCII text\<close>

text \<open>
  On bytes of the ASCII range other than NUL the layer is the identity: the C
  string of such a \<^verbatim>\<open>std::string\<close> is read back whole, it decodes to the same
  characters, and both encodings of those characters are the bytes again.
\<close>

lemma c_string_ascii: "list_all ascii bs \<Longrightarrow> c_string (c_str bs) = bs"
  by (induction bs) (auto simp add: c_string_def c_str_def ascii_def)

lemma mutf8_decode_ascii: "list_all ascii bs \<Longrightarrow> mutf8_decode bs = Some (map of_char bs)"
  by (induction bs) (auto simp add: ascii_def Let_def of_nat_of_char)

lemma unat_of_char: "unat (of_char b :: jchar) = of_char b"
proof -
  have "(of_char b :: nat) < 256"
    by simp
  then have lt: "(of_char b :: nat) < 65536"
    by linarith
  have "(of_char b :: jchar) = of_nat (of_char b)"
    by (simp add: of_nat_of_char)
  then have "unat (of_char b :: jchar) = unat (of_nat (of_char b) :: jchar)"
    by simp
  also have "\<dots> = of_char b mod 2 ^ 16"
    by (simp add: unat_of_nat)
  also have "\<dots> = of_char b"
    using lt by simp
  finally show ?thesis .
qed

lemma mutf8_encode_ascii: "list_all ascii bs \<Longrightarrow> mutf8_encode (map of_char bs) = bs"
  by (induction bs)
     (auto simp add: mutf8_encode_def mutf8_encode_unit_def ascii_def unat_of_char)

lemma code_points_ascii:
  "list_all ascii bs \<Longrightarrow> code_points (map of_char bs) = map of_char bs"
proof (induction bs)
  case Nil
  then show ?case
    by simp
next
  case (Cons b bs)
  then show ?case
    by (cases bs) (auto simp add: is_high_surrogate_def ascii_def unat_of_char)
qed

lemma utf8_encode_ascii: "list_all ascii bs \<Longrightarrow> utf8_encode (map of_char bs) = bs"
  unfolding utf8_encode_def
  by (simp add: code_points_ascii) (induction bs; simp add: utf8_encode_point_def ascii_def)

subsection \<open>The literal\<close>

lemma hello_ascii: "list_all ascii ''Hello from C++''"
  by (simp add: ascii_def)

lemma c_string_hello: "c_string (c_str ''Hello from C++'') = ''Hello from C++''"
  by (rule c_string_ascii [OF hello_ascii])

lemma decode_hello: "mutf8_decode ''Hello from C++'' = Some (map of_char ''Hello from C++'')"
  by (rule mutf8_decode_ascii [OF hello_ascii])

lemma encode_hello: "mutf8_encode (map of_char ''Hello from C++'') = ''Hello from C++''"
  by (rule mutf8_encode_ascii [OF hello_ascii])

lemma utf8_hello: "utf8_encode (map of_char ''Hello from C++'') = ''Hello from C++''"
  by (rule utf8_encode_ascii [OF hello_ascii])

text \<open>
  The entry point on the modelled layer: with room in the heap the string is
  allocated at the next reference, without room the result is null and the machine
  is as before.
\<close>

lemma stringFromJNI_on_jni:
  "stringFromJNI jni thiz vm =
     (if length (heap vm) < capacity vm
      then (Ref (length (heap vm)),
            vm\<lparr>heap := heap vm @ [JString (map of_char ''Hello from C++'')]\<rparr>)
      else (NULL, vm))"
  unfolding Java_com_example_simplemediaapp_MainActivity_stringFromJNI_def Let_def
  by (simp only: jni_def JNIEnv.simps jni_NewStringUTF_def c_string_hello decode_hello
        option.case)

text \<open>
  The entry point with line 12 as it can fail: it throws when the literal neither
  fits the inline buffer nor can be allocated, and is the entry point defined first
  on every other run.
\<close>

lemma stringFromJNI_native_eq:
  "stringFromJNI_native tgt env thiz vm
     = (if inline_capacity tgt < 14 \<and> native_room tgt < 15 then Threw_bad_alloc
        else Returned (stringFromJNI env thiz vm))"
  by (auto simp add: stringFromJNI_native_def std_string_def
        Java_com_example_simplemediaapp_MainActivity_stringFromJNI_def)

section \<open>The claims\<close>

subsection \<open>C1: the returned text\<close>

text \<open>
  C1. Whenever the conversion succeeds (the entry point returns a reference other
  than null), whatever the machine state and the calling-context handle, the
  returned reference holds the text \<open>Hello from C++\<close>: its characters are those of
  the literal, and its bytes are the bytes of the literal, one for one.
\<close>

theorem stringFromJNI_returns_literal:
  assumes "fst (stringFromJNI jni thiz vm) \<noteq> NULL"
  shows "returned_text (stringFromJNI jni thiz vm) = Some (map of_char ''Hello from C++'')
       \<and> map_option mutf8_encode (returned_text (stringFromJNI jni thiz vm)) = Some ''Hello from C++''"
proof -
  from assms have room: "length (heap vm) < capacity vm"
    by (simp add: stringFromJNI_on_jni split: if_splits)
  then have "returned_text (stringFromJNI jni thiz vm) = Some (map of_char ''Hello from C++'')"
    by (simp add: stringFromJNI_on_jni returned_text_def string_at_def)
  then show ?thesis
    by (simp only: encode_hello option.map simp_thms)
qed

text \<open>
  C1, witness: a call with room for the string returns a reference, and the text
  behind it is the literal.
\<close>

theorem stringFromJNI_returns_literal_witness:
  "fst (stringFromJNI jni (Ref 0) (activity_vm 0 2)) \<noteq> NULL
   \<and> returned_text (stringFromJNI jni (Ref 0) (activity_vm 0 2)) = Some (map of_char ''Hello from C++'')
   \<and> map_option mutf8_encode (returned_text (stringFromJNI jni (Ref 0) (activity_vm 0 2)))
       = Some ''Hello from C++''"
proof -
  have ok: "fst (stringFromJNI jni (Ref 0) (activity_vm 0 2)) \<noteq> NULL"
    by (simp add: stringFromJNI_on_jni activity_vm_def)
  from ok stringFromJNI_returns_literal [OF ok] show ?thesis
    by (rule conjI)
qed

text \<open>
  C1, counterexample to the claim for every invocation: with a full heap the entry
  point returns null, and no text is returned.
\<close>

theorem stringFromJNI_null_when_heap_full:
  "fst (stringFromJNI jni (Ref 0) (activity_vm 0 1)) = NULL
   \<and> returned_text (stringFromJNI jni (Ref 0) (activity_vm 0 1)) \<noteq> Some (map of_char ''Hello from C++'')"
  by (simp add: stringFromJNI_on_jni activity_vm_def returned_text_def string_at_def)

subsection \<open>C2: the length of the returned text\<close>

text \<open>
  C2. Whenever the conversion succeeds, the returned text has exactly 14
  characters, and its UTF-8 encoding has exactly 14 bytes.
\<close>

theorem stringFromJNI_length:
  assumes "fst (stringFromJNI jni thiz vm) \<noteq> NULL"
  shows "map_option length (returned_text (stringFromJNI jni thiz vm)) = Some 14
       \<and> map_option (\<lambda>cs. length (utf8_encode cs)) (returned_text (stringFromJNI jni thiz vm)) = Some 14"
proof -
  from assms have room: "length (heap vm) < capacity vm"
    by (simp add: stringFromJNI_on_jni split: if_splits)
  then have "returned_text (stringFromJNI jni thiz vm) = Some (map of_char ''Hello from C++'')"
    by (simp add: stringFromJNI_on_jni returned_text_def string_at_def)
  then show ?thesis
    by (simp only: utf8_hello option.map) simp
qed

text \<open>
  C2, witness: a call on a heap that already holds a greeting and has room for
  more.
\<close>

theorem stringFromJNI_length_witness:
  "fst (stringFromJNI jni (Ref 0) (activity_vm 1 4)) \<noteq> NULL
   \<and> map_option length (returned_text (stringFromJNI jni (Ref 0) (activity_vm 1 4))) = Some 14
   \<and> map_option (\<lambda>cs. length (utf8_encode cs))
         (returned_text (stringFromJNI jni (Ref 0) (activity_vm 1 4))) = Some 14"
proof -
  have ok: "fst (stringFromJNI jni (Ref 0) (activity_vm 1 4)) \<noteq> NULL"
    by (simp add: stringFromJNI_on_jni activity_vm_def)
  from ok stringFromJNI_length [OF ok] show ?thesis
    by (rule conjI)
qed

text \<open>
  C2, counterexample to the claim for every invocation: on a heap that holds the
  activity and one greeting and has no room left, the returned value is null and
  has no length of 14.
\<close>

theorem stringFromJNI_no_length_when_heap_full:
  "map_option length (returned_text (stringFromJNI jni (Ref 0) (activity_vm 1 2))) \<noteq> Some 14"
  by (simp add: stringFromJNI_on_jni activity_vm_def returned_text_def string_at_def)

subsection \<open>C3: repeated calls\<close>

text \<open>
  C3. For two invocations in sequence, with the same or different handles, whose
  conversions both succeed, the returned texts are equal: the text of the first
  call equals the text of the second, both when read right after each call and
  when read after both, and it is the literal.
\<close>

theorem stringFromJNI_sequence:
  assumes first: "stringFromJNI jni h1 vm = (r1, vm1)"
    and second: "stringFromJNI jni h2 vm1 = (r2, vm2)"
    and ok1: "r1 \<noteq> NULL"
    and ok2: "r2 \<noteq> NULL"
  shows "string_at vm2 r1 = string_at vm2 r2
       \<and> string_at vm1 r1 = string_at vm2 r2
       \<and> string_at vm2 r2 = Some (map of_char ''Hello from C++'')"
proof -
  from first ok1 have r1: "r1 = Ref (length (heap vm))"
    and vm1: "vm1 = vm\<lparr>heap := heap vm @ [JString (map of_char ''Hello from C++'')]\<rparr>"
    by (auto simp add: stringFromJNI_on_jni split: if_splits)
  from second ok2 have r2: "r2 = Ref (length (heap vm1))"
    and vm2: "vm2 = vm1\<lparr>heap := heap vm1 @ [JString (map of_char ''Hello from C++'')]\<rparr>"
    by (auto simp add: stringFromJNI_on_jni split: if_splits)
  have a: "string_at vm1 r1 = Some (map of_char ''Hello from C++'')"
    by (simp add: r1 vm1 string_at_def)
  have b: "string_at vm2 r2 = Some (map of_char ''Hello from C++'')"
    by (simp add: r2 vm2 string_at_def)
  have c: "string_at vm2 r1 = Some (map of_char ''Hello from C++'')"
    by (simp add: r1 vm1 vm2 string_at_def nth_append)
  from a b c show ?thesis
    by simp
qed

text \<open>
  C3, witness: two calls in sequence with different handles and room for both
  strings. The calls return the references 1 and 2, which hold equal texts.
\<close>

theorem stringFromJNI_sequence_witness:
  "stringFromJNI jni (Ref 0) (activity_vm 0 3) = (Ref 1, activity_vm 1 3)
   \<and> stringFromJNI jni NULL (activity_vm 1 3) = (Ref 2, activity_vm 2 3)
   \<and> Ref 1 \<noteq> NULL \<and> Ref 2 \<noteq> NULL
   \<and> string_at (activity_vm 2 3) (Ref 1) = string_at (activity_vm 2 3) (Ref 2)"
proof -
  have first: "stringFromJNI jni (Ref 0) (activity_vm 0 3) = (Ref 1, activity_vm 1 3)"
    by (simp add: stringFromJNI_on_jni activity_vm_def)
  have second: "stringFromJNI jni NULL (activity_vm 1 3) = (Ref 2, activity_vm 2 3)"
    by (simp add: stringFromJNI_on_jni activity_vm_def numeral_2_eq_2)
  have ok1: "Ref 1 \<noteq> NULL" and ok2: "Ref 2 \<noteq> NULL"
    by simp_all
  from stringFromJNI_sequence [OF first second ok1 ok2]
  have "string_at (activity_vm 2 3) (Ref 1) = string_at (activity_vm 2 3) (Ref 2)"
    by (rule conjunct1)
  with first second ok1 ok2 show ?thesis
    by (intro conjI)
qed

text \<open>
  C3, counterexample to the claim for any two invocations: with room for one
  object only, the first of two calls in sequence returns the text and the second
  returns null, so the two returned values differ.
\<close>

theorem stringFromJNI_second_call_null:
  "stringFromJNI jni (Ref 0) (activity_vm 0 2) = (Ref 1, activity_vm 1 2)
   \<and> stringFromJNI jni (Ref 0) (activity_vm 1 2) = (NULL, activity_vm 1 2)
   \<and> string_at (activity_vm 1 2) (Ref 1) = Some (map of_char ''Hello from C++'')
   \<and> string_at (activity_vm 1 2) NULL = None
   \<and> string_at (activity_vm 1 2) (Ref 1) \<noteq> string_at (activity_vm 1 2) NULL"
  by (simp add: stringFromJNI_on_jni activity_vm_def string_at_def)

subsection \<open>C4: the handle\<close>

text \<open>
  C4. The output does not depend on the calling-context handle: with the same
  environment and the same machine state, any two handles \<open>h1\<close> and \<open>h2\<close> give the
  same result and the same final state. The handle is never read.
\<close>

theorem stringFromJNI_ignores_handle:
  "stringFromJNI env h1 vm = stringFromJNI env h2 vm"
  by (simp add: Java_com_example_simplemediaapp_MainActivity_stringFromJNI_def)

subsection \<open>C5: the frame\<close>


subsection \<open>C6: failure\<close>

text \<open>
  C6. The operation can fail in two ways and no other. The construction of the
  string on line 12 throws \<^verbatim>\<open>std::bad_alloc\<close> exactly when the 14 characters do not
  fit the inline buffer and the native heap cannot give the 15 bytes; the function
  has no handler, and the exception leaves it. Otherwise the outcome, result and
  state, is the outcome of the conversion call for every environment: the function
  handles and translates no error. On the modelled layer the conversion fails
  exactly when the heap has no room for the string; this is surfaced as the null
  result, with the machine state untouched, and the literal itself never makes the
  conversion fail.
\<close>

theorem stringFromJNI_failures:
  "(stringFromJNI_native tgt env thiz st = Threw_bad_alloc)
     = (inline_capacity tgt < 14 \<and> native_room tgt < 15)
   \<and> (stringFromJNI_native tgt env thiz st = Threw_bad_alloc
       \<or> stringFromJNI_native tgt env thiz st = Returned (NewStringUTF env (c_str ''Hello from C++'') st))
   \<and> failed (stringFromJNI_native tgt jni thiz vm)
       = ((inline_capacity tgt < 14 \<and> native_room tgt < 15)
          \<or> capacity vm \<le> length (heap vm))
   \<and> (stringFromJNI_native tgt jni thiz vm = Returned (NULL, vm))
       = ((14 \<le> inline_capacity tgt \<or> 15 \<le> native_room tgt)
          \<and> capacity vm \<le> length (heap vm))"
proof -
  have throws: "(stringFromJNI_native tgt env thiz st = Threw_bad_alloc)
     = (inline_capacity tgt < 14 \<and> native_room tgt < 15)"
    by (simp add: stringFromJNI_native_eq)
  have passes: "stringFromJNI_native tgt env thiz st = Threw_bad_alloc
       \<or> stringFromJNI_native tgt env thiz st = Returned (NewStringUTF env (c_str ''Hello from C++'') st)"
    by (simp add: stringFromJNI_native_eq
          Java_com_example_simplemediaapp_MainActivity_stringFromJNI_def)
  have fails: "failed (stringFromJNI_native tgt jni thiz vm)
       = ((inline_capacity tgt < 14 \<and> native_room tgt < 15)
          \<or> capacity vm \<le> length (heap vm))"
    by (simp add: stringFromJNI_native_eq failed_def stringFromJNI_on_jni)
  have null: "(stringFromJNI_native tgt jni thiz vm = Returned (NULL, vm))
       = ((14 \<le> inline_capacity tgt \<or> 15 \<le> native_room tgt)
          \<and> capacity vm \<le> length (heap vm))"
    by (auto simp add: stringFromJNI_native_eq stringFromJNI_on_jni)
  from throws passes fails null show ?thesis
    by blast
qed

text \<open>
  C6, counterexample to the claim that only the bridging layer's allocation can
  make the operation fail: on a target whose inline buffer holds 10 characters,
  with an exhausted native heap, the invocation fails by throwing on line 12,
  although the managed heap has room and the conversion of the literal, had it been
  called, would have returned a reference.
\<close>

theorem stringFromJNI_bad_alloc_with_room_in_layer:
  "stringFromJNI_native \<lparr>inline_capacity = 10, native_room = 0\<rparr> jni (Ref 0) (activity_vm 0 2)
     = Threw_bad_alloc
   \<and> failed (stringFromJNI_native \<lparr>inline_capacity = 10, native_room = 0\<rparr> jni (Ref 0)
         (activity_vm 0 2))
   \<and> length (heap (activity_vm 0 2)) < capacity (activity_vm 0 2)
   \<and> jni_NewStringUTF (c_str ''Hello from C++'') (activity_vm 0 2) = (Ref 1, activity_vm 1 2)"
  by (simp add: stringFromJNI_native_def std_string_def failed_def activity_vm_def
        jni_NewStringUTF_def c_string_hello decode_hello)

subsection \<open>C9: the bytes handed to the conversion\<close>

text \<open>
  C9. The entry point hands the conversion the literal followed by one NUL. Every
  byte of the literal is ASCII and not NUL, so the C string read by the conversion
  is the whole literal, 14 bytes long; it is well-formed modified UTF-8 and decodes
  to the characters of the literal (the precondition of \<^verbatim>\<open>NewStringUTF\<close> holds);
  and the modified UTF-8 and the UTF-8 encoding of that text are the same bytes,
  those of the literal.
\<close>

theorem stringFromJNI_argument_ascii:
  "stringFromJNI env thiz st = NewStringUTF env (''Hello from C++'' @ [CHR 0x00]) st
   \<and> list_all ascii ''Hello from C++''
   \<and> c_string (c_str ''Hello from C++'') = ''Hello from C++''
   \<and> length (c_string (c_str ''Hello from C++'')) = 14
   \<and> mutf8_decode (c_string (c_str ''Hello from C++'')) = Some (map of_char ''Hello from C++'')
   \<and> mutf8_encode (map of_char ''Hello from C++'') = utf8_encode (map of_char ''Hello from C++'')
   \<and> utf8_encode (map of_char ''Hello from C++'') = ''Hello from C++''"
proof -
  have "stringFromJNI env thiz st = NewStringUTF env (''Hello from C++'' @ [CHR 0x00]) st"
    by (simp add: Java_com_example_simplemediaapp_MainActivity_stringFromJNI_def c_str_def)
  moreover have "length (c_string (c_str ''Hello from C++'')) = 14"
    by (simp add: c_string_hello)
  moreover have "mutf8_decode (c_string (c_str ''Hello from C++'')) = Some (map of_char ''Hello from C++'')"
    by (simp only: c_string_hello decode_hello)
  moreover have "mutf8_encode (map of_char ''Hello from C++'') = utf8_encode (map of_char ''Hello from C++'')"
    by (simp only: encode_hello utf8_hello)
  moreover note hello_ascii c_string_hello utf8_hello
  ultimately show ?thesis
    by blast
qed

subsection \<open>C10: one call into the environment\<close>


end
